theory Spec2Isabelle
  imports Complex_Main
begin

section \<open>JavaScript numbers\<close>

text \<open>
  A JavaScript number is an IEEE double. The model keeps the three special values that
  the scoring and pricing code can produce or receive (\<open>NaN\<close> and the two infinities) and
  idealises every finite double as a real number: finite arithmetic is exact and does not
  overflow. Negative zero is identified with zero, so a zero divisor counts as \<open>+0\<close>.
\<close>

datatype jsnum = NaN | NInf | Fin real | PInf

fun is_neg :: "jsnum \<Rightarrow> bool" where
  "is_neg NInf = True"
| "is_neg (Fin r) = (r < 0)"
| "is_neg _ = False"

fun is_zero :: "jsnum \<Rightarrow> bool" where
  "is_zero (Fin r) = (r = 0)"
| "is_zero _ = False"

text \<open>\<open>a + b\<close>\<close>

fun jadd :: "jsnum \<Rightarrow> jsnum \<Rightarrow> jsnum" where
  "jadd (Fin a) (Fin b) = Fin (a + b)"
| "jadd NaN _ = NaN"
| "jadd _ NaN = NaN"
| "jadd PInf NInf = NaN"
| "jadd NInf PInf = NaN"
| "jadd PInf _ = PInf"
| "jadd _ PInf = PInf"
| "jadd NInf _ = NInf"
| "jadd _ NInf = NInf"

text \<open>unary minus\<close>

fun jneg :: "jsnum \<Rightarrow> jsnum" where
  "jneg NaN = NaN"
| "jneg NInf = PInf"
| "jneg PInf = NInf"
| "jneg (Fin r) = Fin (- r)"

text \<open>\<open>a - b\<close>\<close>

definition jsub :: "jsnum \<Rightarrow> jsnum \<Rightarrow> jsnum" where
  "jsub a b = jadd a (jneg b)"

text \<open>\<open>a * b\<close>: infinity times zero is NaN, otherwise the signs multiply.\<close>

fun jmul :: "jsnum \<Rightarrow> jsnum \<Rightarrow> jsnum" where
  "jmul (Fin a) (Fin b) = Fin (a * b)"
| "jmul NaN _ = NaN"
| "jmul _ NaN = NaN"
| "jmul a b =
     (if is_zero a \<or> is_zero b then NaN
      else if is_neg a = is_neg b then PInf else NInf)"

text \<open>\<open>a / b\<close>: a finite non-zero number over zero is an infinity, zero over zero is NaN.\<close>

fun jdiv :: "jsnum \<Rightarrow> jsnum \<Rightarrow> jsnum" where
  "jdiv NaN _ = NaN"
| "jdiv _ NaN = NaN"
| "jdiv (Fin a) (Fin b) =
     (if b = 0 then (if a = 0 then NaN else if 0 < a then PInf else NInf)
      else Fin (a / b))"
| "jdiv (Fin a) _ = Fin 0"
| "jdiv a (Fin b) = (if is_neg a = (b < 0) then PInf else NInf)"
| "jdiv _ _ = NaN"

text \<open>\<open>Math.abs\<close>\<close>

fun Math_abs :: "jsnum \<Rightarrow> jsnum" where
  "Math_abs NaN = NaN"
| "Math_abs (Fin r) = Fin \<bar>r\<bar>"
| "Math_abs _ = PInf"

text \<open>\<open>a < b\<close> and \<open>a <= b\<close>: every comparison with NaN is false.\<close>

fun jlt :: "jsnum \<Rightarrow> jsnum \<Rightarrow> bool" where
  "jlt NaN _ = False"
| "jlt _ NaN = False"
| "jlt (Fin a) (Fin b) = (a < b)"
| "jlt _ NInf = False"
| "jlt NInf _ = True"
| "jlt PInf _ = False"
| "jlt _ PInf = True"

fun jle :: "jsnum \<Rightarrow> jsnum \<Rightarrow> bool" where
  "jle NaN _ = False"
| "jle _ NaN = False"
| "jle a b = (a = b \<or> jlt a b)"

text \<open>\<open>Math.min\<close> and \<open>Math.max\<close> of two arguments: NaN if either argument is NaN.\<close>

fun Math_min :: "jsnum \<Rightarrow> jsnum \<Rightarrow> jsnum" where
  "Math_min NaN _ = NaN"
| "Math_min _ NaN = NaN"
| "Math_min a b = (if jlt b a then b else a)"

fun Math_max :: "jsnum \<Rightarrow> jsnum \<Rightarrow> jsnum" where
  "Math_max NaN _ = NaN"
| "Math_max _ NaN = NaN"
| "Math_max a b = (if jlt a b then b else a)"

text \<open>\<open>Math.round\<close>: the nearest integer, halves rounded up.\<close>

fun Math_round :: "jsnum \<Rightarrow> jsnum" where
  "Math_round (Fin r) = Fin (of_int \<lfloor>r + 1 / 2\<rfloor>)"
| "Math_round x = x"

text \<open>\<open>parseFloat(x.toFixed(2))\<close>: two decimals, halves rounded away from zero.\<close>

fun toFixed2 :: "jsnum \<Rightarrow> jsnum" where
  "toFixed2 (Fin r) = Fin (sgn r * of_int \<lfloor>\<bar>r\<bar> * 100 + 1 / 2\<rfloor> / 100)"
| "toFixed2 x = x"

text \<open>Truthiness of a number: \<open>0\<close> and \<open>NaN\<close> are falsy.\<close>

fun truthy :: "jsnum \<Rightarrow> bool" where
  "truthy NaN = False"
| "truthy (Fin r) = (r \<noteq> 0)"
| "truthy _ = True"

section \<open>Strings\<close>

text \<open>
  Strings are byte strings; \<open>toLowerCase\<close> is modelled on the ASCII letters and leaves
  every other character as it is.
\<close>

definition lower_char :: "char \<Rightarrow> char" where
  "lower_char c =
     (case map_of (zip ''ABCDEFGHIJKLMNOPQRSTUVWXYZ'' ''abcdefghijklmnopqrstuvwxyz'') c of
        Some d \<Rightarrow> d
      | None \<Rightarrow> c)"

definition toLowerCase :: "string \<Rightarrow> string" where
  "toLowerCase s = map lower_char s"

section \<open>Property lookup on an object literal\<close>

text \<open>
  The market tables are object literals, so \<open>TABLE[key]\<close> finds the table's own entries
  and, failing that, the properties every object inherits from \<open>Object.prototype\<close>.
  An inherited property is a function or an object: it is truthy, and converting it to a
  number gives NaN.
\<close>

datatype 'a lookup = Own 'a | Inherited | Missing

definition Object_prototype_keys :: "string list" where
  "Object_prototype_keys =
     [''constructor'', ''__defineGetter__'', ''__defineSetter__'', ''hasOwnProperty'',
      ''__lookupGetter__'', ''__lookupSetter__'', ''isPrototypeOf'',
      ''propertyIsEnumerable'', ''toString'', ''valueOf'', ''__proto__'',
      ''toLocaleString'']"

text \<open>A key written twice in a literal keeps its last value, hence the reversal.\<close>

definition js_get :: "(string \<times> real) list \<Rightarrow> string \<Rightarrow> real lookup" where
  "js_get tbl k =
     (case map_of (rev tbl) k of
        Some v \<Rightarrow> Own v
      | None \<Rightarrow> if k \<in> set Object_prototype_keys then Inherited else Missing)"

text \<open>
  \<open>TABLE[key] || dflt\<close>, read as a number: an own non-zero entry is itself, an inherited
  property is kept by \<open>||\<close> and is NaN as a number, anything else is the default.
\<close>

fun or_default :: "real lookup \<Rightarrow> real \<Rightarrow> jsnum" where
  "or_default (Own v) d = (if v \<noteq> 0 then Fin v else Fin d)"
| "or_default Inherited d = NaN"
| "or_default Missing d = Fin d"

section \<open>Market data tables\<close>

definition BASE_PRICES :: "(string \<times> real) list" where
  "BASE_PRICES =
     [(''apartment'', 4000), (''house'', 3500), (''villa'', 5000), (''penthouse'', 6000),
      (''studio'', 4500), (''default'', 4000)]"

definition LOCATION_MULTIPLIERS :: "(string \<times> real) list" where
  "LOCATION_MULTIPLIERS =
     [(''mumbai'', 1.8), (''delhi'', 1.6), (''bangalore'', 1.7), (''hyderabad'', 1.4),
      (''chennai'', 1.3), (''kolkata'', 1.2), (''pune'', 1.3), (''ahmedabad'', 1.1),
      (''vishakapatnam'', 1.0),
      (''maharashtra'', 1.3), (''delhi'', 1.6), (''karnataka'', 1.2), (''telangana'', 1.1),
      (''tamil nadu'', 1.1), (''west bengal'', 1.0), (''gujarat'', 1.0),
      (''andhra pradesh'', 0.9), (''default'', 1.0)]"

definition AMENITY_VALUES :: "(string \<times> real) list" where
  "AMENITY_VALUES =
     [(''parking'', 1000), (''gym'', 1500), (''pool'', 2000), (''air conditioning'', 2000),
      (''security'', 1000), (''power backup'', 1000), (''lift'', 800),
      (''water supply'', 500), (''maintenance'', 1000), (''playground'', 500),
      (''garden'', 500), (''clubhouse'', 1000), (''internet'', 800),
      (''housekeeping'', 1000)]"

text \<open>
  The bedroom and bathroom tables are indexed by a number, whose key is its decimal
  string: only the numbers 1 to 5 (1 to 4) meet an entry, and no number spells an
  inherited name.
\<close>

definition BEDROOM_MULTIPLIERS :: "(real \<times> real) list" where
  "BEDROOM_MULTIPLIERS = [(1, 1.0), (2, 1.3), (3, 1.6), (4, 1.9), (5, 2.2)]"

definition BATHROOM_MULTIPLIERS :: "(real \<times> real) list" where
  "BATHROOM_MULTIPLIERS = [(1, 1.0), (2, 1.2), (3, 1.4), (4, 1.6)]"

section \<open>The rent price calculator\<close>

text \<open>
  A field of the property argument is absent (\<open>undefined\<close>), \<open>null\<close>, or a value of the
  type the calculator expects: a number, a string, an array of strings.
\<close>

datatype 'a field = Absent | Null | Given 'a

record property =
  propertyType :: "string field"
  bedrooms :: "jsnum field"
  bathrooms :: "jsnum field"
  squareFootage :: "jsnum field"
  city :: "string field"
  state :: "string field"
  amenities :: "string list field"

record priceRange =
  range_min :: jsnum
  range_max :: jsnum
  currency :: string
  period :: string

record estimate =
  basePrice :: jsnum
  amenitiesValue :: jsnum
  totalPrice :: jsnum
  priceRange :: priceRange
  locationMultiplier :: jsnum
  bedroomMultiplier :: jsnum
  bathroomMultiplier :: jsnum

text \<open>The one error the calculator raises: its \<open>catch\<close> rethrows everything under this message.\<close>

datatype error = Failed_to_calculate_rent_price

text \<open>\<open>(property.propertyType || 'apartment').toLowerCase()\<close>: the empty string is falsy.\<close>

fun propertyType_of :: "string field \<Rightarrow> string" where
  "propertyType_of (Given s) = toLowerCase (if s = [] then ''apartment'' else s)"
| "propertyType_of _ = toLowerCase ''apartment''"

text \<open>\<open>squareFootage || 1000\<close> with the destructuring default \<open>squareFootage = 0\<close>.\<close>

fun area_of :: "jsnum field \<Rightarrow> jsnum" where
  "area_of (Given x) = (if truthy x then x else Fin 1000)"
| "area_of _ = Fin 1000"

text \<open>
  \<open>LOCATION_MULTIPLIERS[name.toLowerCase()] || 1.0\<close> with the destructuring default
  \<open>''\<close>; \<open>null.toLowerCase()\<close> is a TypeError.
\<close>

fun location_lookup :: "string field \<Rightarrow> error + jsnum" where
  "location_lookup (Given s) = Inr (or_default (js_get LOCATION_MULTIPLIERS (toLowerCase s)) 1.0)"
| "location_lookup Absent = Inr (or_default (js_get LOCATION_MULTIPLIERS (toLowerCase [])) 1.0)"
| "location_lookup Null = Inl Failed_to_calculate_rent_price"

text \<open>
  \<open>TABLE[n] || TABLE.default\<close> for the bedroom and bathroom tables, with the
  destructuring default \<open>1\<close>; \<open>null\<close> and the non-finite numbers meet no entry.
\<close>

fun room_multiplier :: "(real \<times> real) list \<Rightarrow> jsnum field \<Rightarrow> jsnum" where
  "room_multiplier tbl (Given (Fin n)) =
     (case map_of tbl n of Some v \<Rightarrow> Fin v | None \<Rightarrow> Fin 1.0)"
| "room_multiplier tbl Absent =
     (case map_of tbl 1 of Some v \<Rightarrow> Fin v | None \<Rightarrow> Fin 1.0)"
| "room_multiplier tbl _ = Fin 1.0"

text \<open>
  The \<open>reduce\<close> over the amenities. Adding an inherited property to the running total
  makes the total a string that is not a numeral; every later use of it is a sum
  (it stays such a string) or a conversion to a number (NaN), so the model carries
  NaN from there on.
\<close>

fun amenities_reduce :: "jsnum \<Rightarrow> string list \<Rightarrow> jsnum" where
  "amenities_reduce tot [] = tot"
| "amenities_reduce tot (amenity # rest) =
     amenities_reduce (jadd tot (or_default (js_get AMENITY_VALUES (toLowerCase amenity)) 0)) rest"

text \<open>\<open>Array.isArray(amenities)\<close> with the destructuring default \<open>[]\<close>.\<close>

fun amenities_total :: "string list field \<Rightarrow> jsnum" where
  "amenities_total (Given xs) = amenities_reduce (Fin 0) xs"
| "amenities_total _ = Fin 0"

definition calculateRentPrice :: "property \<Rightarrow> error + estimate" where
  "calculateRentPrice p =
     (let ptype = propertyType_of (propertyType p);
          basePricePerSqFt = or_default (js_get BASE_PRICES ptype) 4000;
          basePrice0 = jmul basePricePerSqFt (area_of (squareFootage p))
      in case location_lookup (city p) of
           Inl e \<Rightarrow> Inl e
         | Inr cityMultiplier \<Rightarrow>
      (case location_lookup (state p) of
           Inl e \<Rightarrow> Inl e
         | Inr stateMultiplier \<Rightarrow>
        (let locMultiplier = Math_max (Math_max cityMultiplier stateMultiplier) (Fin 0.8);
             basePrice1 = jmul basePrice0 locMultiplier;
             bedMultiplier = room_multiplier BEDROOM_MULTIPLIERS (bedrooms p);
             bathMultiplier = room_multiplier BATHROOM_MULTIPLIERS (bathrooms p);
             basePrice2 = jmul basePrice1 (jmul bedMultiplier bathMultiplier);
             amenValue = amenities_total (amenities p);
             tot = jadd basePrice2 amenValue;
             priceVariance = jmul tot (Fin 0.15);
             minPrice = Math_round (jsub tot priceVariance);
             maxPrice = Math_round (jadd tot priceVariance)
         in Inr \<lparr> basePrice = Math_round basePrice2,
                  amenitiesValue = Math_round amenValue,
                  totalPrice = Math_round tot,
                  priceRange = \<lparr> range_min = minPrice, range_max = maxPrice,
                                 currency = ''INR'', period = ''month'' \<rparr>,
                  locationMultiplier = toFixed2 locMultiplier,
                  bedroomMultiplier = toFixed2 bedMultiplier,
                  bathroomMultiplier = toFixed2 bathMultiplier \<rparr>)))"

text \<open>Helpers for stating properties of the calculator.\<close>

text \<open>The table key a city or state gives: the lower-cased name, the empty string when absent.\<close>

fun key_of :: "string field \<Rightarrow> string" where
  "key_of (Given s) = toLowerCase s"
| "key_of _ = []"

text \<open>No lookup key of the property names a property inherited from \<open>Object.prototype\<close>.\<close>

definition plain_keys :: "property \<Rightarrow> bool" where
  "plain_keys p \<longleftrightarrow>
     propertyType_of (propertyType p) \<notin> set Object_prototype_keys
     \<and> key_of (city p) \<notin> set Object_prototype_keys
     \<and> key_of (state p) \<notin> set Object_prototype_keys
     \<and> (case amenities p of
          Given xs \<Rightarrow> list_all (\<lambda>a. toLowerCase a \<notin> set Object_prototype_keys) xs
        | _ \<Rightarrow> True)"

text \<open>A numeric field that is absent or a finite non-negative number.\<close>

fun nonneg_field :: "jsnum field \<Rightarrow> bool" where
  "nonneg_field (Given (Fin r)) = (0 \<le> r)"
| "nonneg_field Absent = True"
| "nonneg_field _ = False"

text \<open>A numeric field that is absent or a non-negative whole number.\<close>

fun whole_field :: "jsnum field \<Rightarrow> bool" where
  "whole_field (Given (Fin r)) = (0 \<le> r \<and> r = of_int \<lfloor>r\<rfloor>)"
| "whole_field Absent = True"
| "whole_field _ = False"

fun is_fin :: "jsnum \<Rightarrow> bool" where
  "is_fin (Fin r) = True"
| "is_fin _ = False"

fun the_fin :: "jsnum \<Rightarrow> real" where
  "the_fin (Fin r) = r"
| "the_fin _ = 0"

section \<open>The natural-language query parser\<close>

text \<open>
  The three regular expressions of \<open>parseNaturalLanguageQuery\<close>, each as the function
  that tries the pattern at the start of a string and returns its capture group, and
  \<open>regex_search\<close>, which returns the leftmost match as \<open>String.prototype.match\<close> does.
  The character classes are modelled on ASCII.
\<close>

definition is_digit :: "char \<Rightarrow> bool" where
  "is_digit c \<longleftrightarrow> c \<in> set ''0123456789''"

definition is_letter :: "char \<Rightarrow> bool" where
  "is_letter c \<longleftrightarrow>
     c \<in> set ''abcdefghijklmnopqrstuvwxyzABCDEFGHIJKLMNOPQRSTUVWXYZ''"

definition is_space :: "char \<Rightarrow> bool" where
  "is_space c \<longleftrightarrow> c \<in> set [CHR 0x09, CHR 0x0A, CHR 0x0B, CHR 0x0C, CHR 0x0D, CHR 0x20]"

fun strip_prefix :: "string \<Rightarrow> string \<Rightarrow> string option" where
  "strip_prefix [] s = Some s"
| "strip_prefix (p # ps) [] = None"
| "strip_prefix (p # ps) (c # cs) = (if p = c then strip_prefix ps cs else None)"

fun regex_search :: "(string \<Rightarrow> 'a option) \<Rightarrow> string \<Rightarrow> 'a option" where
  "regex_search m [] = m []"
| "regex_search m (c # cs) =
     (case m (c # cs) of Some x \<Rightarrow> Some x | None \<Rightarrow> regex_search m cs)"

text \<open>\<open>/under \$?(\d+)/\<close>: giving the optional dollar sign back never helps, a digit must follow.\<close>

definition price_pattern :: "string \<Rightarrow> string option" where
  "price_pattern s =
     (case strip_prefix ''under '' s of
        None \<Rightarrow> None
      | Some r \<Rightarrow>
          (let r' = (case r of c # t \<Rightarrow> if c = CHR ''$'' then t else r | [] \<Rightarrow> r);
               ds = takeWhile is_digit r'
           in if ds = [] then None else Some ds))"

text \<open>\<open>/(\d+)\s*bed/\<close>: the digits and the blanks are taken greedily; a shorter run cannot match.\<close>

definition bedroom_pattern :: "string \<Rightarrow> string option" where
  "bedroom_pattern s =
     (let ds = takeWhile is_digit s
      in if ds = [] then None
         else (case strip_prefix ''bed'' (dropWhile is_space (dropWhile is_digit s)) of
                 None \<Rightarrow> None
               | Some _ \<Rightarrow> Some ds))"

text \<open>\<open>/in ([a-zA-Z\s]+)/\<close>: the longest run of letters and blanks after \<open>in \<close>.\<close>

definition location_pattern :: "string \<Rightarrow> string option" where
  "location_pattern s =
     (case strip_prefix ''in '' s of
        None \<Rightarrow> None
      | Some r \<Rightarrow>
          (let run = takeWhile (\<lambda>c. is_letter c \<or> is_space c) r
           in if run = [] then None else Some run))"

text \<open>\<open>parseInt\<close> of a non-empty string of decimal digits.\<close>

definition digit_value :: "char \<Rightarrow> nat" where
  "digit_value c = (case map_of (zip ''0123456789'' [0, 1, 2, 3, 4, 5, 6, 7, 8, 9]) c of
                      Some d \<Rightarrow> d | None \<Rightarrow> 0)"

definition parseInt :: "string \<Rightarrow> jsnum" where
  "parseInt ds = Fin (real (foldl (\<lambda>n c. 10 * n + digit_value c) 0 ds))"

definition trim :: "string \<Rightarrow> string" where
  "trim s = rev (dropWhile is_space (rev (dropWhile is_space s)))"

text \<open>The filter object: a key that was not set is \<open>None\<close>.\<close>

record filters =
  maxRent :: "jsnum option"
  bedrooms_filter :: "jsnum option"
  city_filter :: "string option"

definition parseNaturalLanguageQuery :: "string \<Rightarrow> filters" where
  "parseNaturalLanguageQuery query =
     (let lowerQuery = toLowerCase query;
          priceMatch = regex_search price_pattern lowerQuery;
          bedroomMatch = regex_search bedroom_pattern lowerQuery;
          locationMatch = regex_search location_pattern lowerQuery
      in \<lparr> maxRent = map_option parseInt priceMatch,
           bedrooms_filter = map_option parseInt bedroomMatch,
           city_filter = map_option trim locationMatch \<rparr>)"

section \<open>The scoring functions\<close>

text \<open>
  A stored listing as the scoring functions read it. The nested objects \<open>pricing\<close> and
  \<open>specifications\<close> and the array \<open>amenities\<close> are always there on a stored document;
  their numeric members may be absent or null.
\<close>

record listing =
  pricing_rent :: "jsnum field"
  specifications_bedrooms :: "jsnum field"
  specifications_yearBuilt :: "jsnum field"
  specifications_squareFootage :: "jsnum field"
  listing_amenities :: "string list"
  views :: "jsnum field"
  createdAt :: int

text \<open>A value used as a number: \<open>undefined\<close> is NaN, \<open>null\<close> is zero.\<close>

fun to_number :: "jsnum field \<Rightarrow> jsnum" where
  "to_number Absent = NaN"
| "to_number Null = Fin 0"
| "to_number (Given x) = x"

fun field_truthy :: "jsnum field \<Rightarrow> bool" where
  "field_truthy (Given x) = truthy x"
| "field_truthy _ = False"

record budget =
  budget_min :: "jsnum field"
  budget_max :: "jsnum field"

text \<open>The preferences of the request body; \<open>None\<close> is an absent (or null) member.\<close>

record preferences =
  pref_budget :: "budget option"
  pref_amenities :: "string list option"

text \<open>
  \<open>marketData.avgRent\<close> is read at the key \<open>'studio'\<close> or at the key that the template
  \<open>`${bedrooms}bed`\<close> spells, which determines the value of \<open>bedrooms\<close>.
\<close>

datatype bedroomKey = studio | bed "jsnum field"

record marketData =
  avgRent :: "bedroomKey \<Rightarrow> jsnum option"

datatype position = good_value | market_rate | premium

definition getRelativePricing :: "jsnum field \<Rightarrow> marketData \<Rightarrow> jsnum field \<Rightarrow> position" where
  "getRelativePricing rent md bedroomCount =
     (let bedroomKey = (if bedroomCount = Given (Fin 0) then studio else bed bedroomCount);
          fallback = (case avgRent md (bed (Given (Fin 1))) of Some v \<Rightarrow> v | None \<Rightarrow> NaN);
          marketAvg = (case avgRent md bedroomKey of
                         Some v \<Rightarrow> if truthy v then v else fallback
                       | None \<Rightarrow> fallback);
          ratio = jdiv (to_number rent) marketAvg
      in if jlt ratio (Fin 0.9) then good_value
         else if jlt ratio (Fin 1.1) then market_rate
         else premium)"

text \<open>
  The five blocks of \<open>calculateSmartScore\<close>, each taking the running score to the next.
  The function's fourth parameter, \<open>userPreferences\<close>, is never read.
\<close>

definition price_scoring :: "preferences \<Rightarrow> listing \<Rightarrow> jsnum \<Rightarrow> jsnum" where
  "price_scoring prefs l score =
     (case pref_budget prefs of
        None \<Rightarrow> score
      | Some b \<Rightarrow>
          (let budgetMid = jdiv (jadd (to_number (budget_min b)) (to_number (budget_max b))) (Fin 2);
               priceDiff = jdiv (Math_abs (jsub (to_number (pricing_rent l)) budgetMid)) budgetMid
           in jadd score (jmul (jsub (Fin 1) priceDiff) (Fin 30))))"

definition amenity_matching :: "preferences \<Rightarrow> listing \<Rightarrow> jsnum \<Rightarrow> jsnum" where
  "amenity_matching prefs l score =
     (case pref_amenities prefs of
        None \<Rightarrow> score
      | Some wanted \<Rightarrow>
          if 0 < length wanted then
            (let matchedAmenities = filter (\<lambda>a. a \<in> set wanted) (listing_amenities l);
                 amenityScore =
                   jmul (jdiv (Fin (real (length matchedAmenities))) (Fin (real (length wanted))))
                        (Fin 25)
             in jadd score amenityScore)
          else score)"

definition market_position :: "marketData \<Rightarrow> listing \<Rightarrow> jsnum \<Rightarrow> jsnum" where
  "market_position md l score =
     (case getRelativePricing (pricing_rent l) md (specifications_bedrooms l) of
        good_value \<Rightarrow> jadd score (Fin 20)
      | market_rate \<Rightarrow> jadd score (Fin 15)
      | premium \<Rightarrow> jadd score (Fin 10))"

definition quality_indicators :: "listing \<Rightarrow> jsnum \<Rightarrow> jsnum" where
  "quality_indicators l score =
     (let s1 = (if jlt (Fin 2010) (to_number (specifications_yearBuilt l))
                then jadd score (Fin 5) else score);
          s2 = (if 5 < length (listing_amenities l) then jadd s1 (Fin 5) else s1)
      in if jlt (Fin 1000) (to_number (specifications_squareFootage l))
         then jadd s2 (Fin 5) else s2)"

definition popularity :: "listing \<Rightarrow> jsnum \<Rightarrow> jsnum" where
  "popularity l score = jadd score (Math_min (Fin 10) (jdiv (to_number (views l)) (Fin 50)))"

definition calculateSmartScore :: "listing \<Rightarrow> preferences \<Rightarrow> marketData \<Rightarrow> jsnum" where
  "calculateSmartScore l prefs md =
     (let score = popularity l (quality_indicators l (market_position md l
                    (amenity_matching prefs l (price_scoring prefs l (Fin 50)))))
      in Math_min (Fin 100) (Math_max (Fin 0) score))"

text \<open>The stored preferences of a user, as \<open>calculatePersonalizedScore\<close> reads them.\<close>

record bedroomPrefs =
  bedrooms_min :: "jsnum field"

record userPrefs =
  user_budget :: "budget option"
  user_bedrooms :: "bedroomPrefs option"
  user_amenities :: "string list option"

definition budget_match :: "userPrefs \<Rightarrow> listing \<Rightarrow> jsnum \<Rightarrow> jsnum" where
  "budget_match up l score =
     (case user_budget up of
        None \<Rightarrow> score
      | Some b \<Rightarrow>
          if field_truthy (budget_max b) then
            (if jle (to_number (pricing_rent l)) (to_number (budget_max b))
             then jadd score (Fin 30) else score)
          else score)"

definition bedroom_match :: "userPrefs \<Rightarrow> listing \<Rightarrow> jsnum \<Rightarrow> jsnum" where
  "bedroom_match up l score =
     (case user_bedrooms up of
        None \<Rightarrow> score
      | Some b \<Rightarrow>
          if field_truthy (bedrooms_min b) then
            (if jle (to_number (bedrooms_min b)) (to_number (specifications_bedrooms l))
             then jadd score (Fin 25) else score)
          else score)"

definition amenity_matches :: "userPrefs \<Rightarrow> listing \<Rightarrow> jsnum \<Rightarrow> jsnum" where
  "amenity_matches up l score =
     (case user_amenities up of
        None \<Rightarrow> score
      | Some wanted \<Rightarrow>
          (let matches = length (filter (\<lambda>amenity. amenity \<in> set (listing_amenities l)) wanted)
           in jadd score (jmul (Fin (real matches)) (Fin 5))))"

definition calculatePersonalizedScore :: "listing \<Rightarrow> userPrefs \<Rightarrow> jsnum" where
  "calculatePersonalizedScore l up =
     Math_min (amenity_matches up l (bedroom_match up l (budget_match up l (Fin 0)))) (Fin 100)"

section \<open>The ranking of the smart recommendations\<close>

text \<open>
  \<open>Array.prototype.sort\<close> with a comparator is a stable sort: an element moves behind
  another only if the comparator is positive on the pair. For a comparator that orders
  the elements consistently the result is the same for every stable sort; insertion
  from the right computes it.
\<close>

fun insert_sorted :: "('a \<Rightarrow> 'a \<Rightarrow> jsnum) \<Rightarrow> 'a \<Rightarrow> 'a list \<Rightarrow> 'a list" where
  "insert_sorted cmp x [] = [x]"
| "insert_sorted cmp x (y # ys) =
     (if jlt (Fin 0) (cmp x y) then y # insert_sorted cmp x ys else x # y # ys)"

definition js_sort :: "('a \<Rightarrow> 'a \<Rightarrow> jsnum) \<Rightarrow> 'a list \<Rightarrow> 'a list" where
  "js_sort cmp xs = foldr (insert_sorted cmp) xs []"

text \<open>A listing with the score the route attaches to it.\<close>

record scored =
  scored_listing :: listing
  smartScore :: jsnum

section \<open>The market data service\<close>

text \<open>
  The values the service returns are plain objects; the model keeps their own members
  in order. \<open>get_prop\<close> reads a member as \<open>object.key\<close> does, \<open>undefined\<close> when the
  object has no such member of its own.
\<close>

datatype jval =
    JUndefined | JNull | JBool bool | JNum jsnum | JStr string | JDate int
  | JArr "jval list" | JObj "(string \<times> jval) list"

fun get_prop :: "jval \<Rightarrow> string \<Rightarrow> jval" where
  "get_prop (JObj members) k = (case map_of members k of Some v \<Rightarrow> v | None \<Rightarrow> JUndefined)"
| "get_prop _ k = JUndefined"

fun field_value :: "string field \<Rightarrow> jval" where
  "field_value Absent = JUndefined"
| "field_value Null = JNull"
| "field_value (Given s) = JStr s"

record location =
  loc_city :: "string field"
  loc_state :: "string field"

text \<open>What the aggregation reads of a stored listing: \<open>pricing?.rent\<close> and \<open>propertyType\<close>.\<close>

record doc =
  doc_rent :: "jsnum field"
  doc_propertyType :: "string field"

datatype db_error = Query_failed

text \<open>\<open>getGlobalMarketData()\<close>; \<open>now\<close> is the clock's \<open>new Date()\<close>.\<close>

definition getGlobalMarketData :: "int \<Rightarrow> jval" where
  "getGlobalMarketData now =
     JObj [(''location'', JObj [(''city'', JStr ''Global''), (''state'', JStr ''All'')]),
           (''averageRent'', JNum (Fin 1500)),
           (''propertyTypeDistribution'',
              JObj [(''Apartment'', JNum (Fin 45)), (''House'', JNum (Fin 35)),
                    (''Condo'', JNum (Fin 15)), (''Other'', JNum (Fin 5))]),
           (''totalListings'', JNum (Fin 100)),
           (''lastUpdated'', JDate now),
           (''isEstimate'', JBool True)]"

text \<open>\<open>prop.pricing?.rent || 0\<close>\<close>

fun rent_or_zero :: "jsnum field \<Rightarrow> jsnum" where
  "rent_or_zero (Given x) = (if truthy x then x else Fin 0)"
| "rent_or_zero _ = Fin 0"

text \<open>\<open>prop.propertyType || 'Unknown'\<close>\<close>

fun type_or_unknown :: "string field \<Rightarrow> string" where
  "type_or_unknown (Given s) = (if s = [] then ''Unknown'' else s)"
| "type_or_unknown _ = ''Unknown''"

text \<open>
  \<open>propertyTypes[type] = (propertyTypes[type] || 0) + 1\<close> on an object literal that
  starts empty. A type that names an inherited property reads that property, and the
  sum is its source text followed by \<open>1\<close>; an assignment to \<open>__proto__\<close> of a value
  that is no object changes nothing.
\<close>

definition inherited_text :: "string \<Rightarrow> string" where
  "inherited_text k =
     (if k = ''__proto__'' then ''[object Object]''
      else ''function '' @ (if k = ''constructor'' then ''Object'' else k)
           @ ''() { [native code] }'')"

fun plus_one :: "jval \<Rightarrow> jval" where
  "plus_one (JNum n) = (if truthy n then JNum (jadd n (Fin 1)) else JNum (Fin 1))"
| "plus_one (JStr s) = (if s = [] then JNum (Fin 1) else JStr (s @ ''1''))"
| "plus_one v = JNum (Fin 1)"

fun assign :: "(string \<times> jval) list \<Rightarrow> string \<Rightarrow> jval \<Rightarrow> (string \<times> jval) list" where
  "assign [] k v = [(k, v)]"
| "assign ((k', v') # rest) k v =
     (if k' = k then (k, v) # rest else (k', v') # assign rest k v)"

definition count_type :: "(string \<times> jval) list \<Rightarrow> doc \<Rightarrow> (string \<times> jval) list" where
  "count_type propertyTypes prop =
     (let type = type_or_unknown (doc_propertyType prop)
      in case map_of propertyTypes type of
           Some v \<Rightarrow> assign propertyTypes type (plus_one v)
         | None \<Rightarrow>
             if type = ''__proto__'' then propertyTypes
             else if type \<in> set Object_prototype_keys
               then assign propertyTypes type (JStr (inherited_text type @ ''1''))
             else assign propertyTypes type (JNum (Fin 1)))"

text \<open>
  \<open>getMarketData(location)\<close> of the service. \<open>Property_find\<close> is the store's query for the
  listings of a city and state; a query that fails is caught and answered by the
  global data.
\<close>

fun city_given :: "string field \<Rightarrow> string option" where
  "city_given (Given s) = (if s = [] then None else Some s)"
| "city_given _ = None"

definition service_getMarketData ::
  "(string \<Rightarrow> string field \<Rightarrow> db_error + doc list) \<Rightarrow> int \<Rightarrow> location option \<Rightarrow> jval" where
  "service_getMarketData Property_find now loc =
     (case loc of
        None \<Rightarrow> getGlobalMarketData now
      | Some l \<Rightarrow>
          (case city_given (loc_city l) of
             None \<Rightarrow> getGlobalMarketData now
           | Some c \<Rightarrow>
               (case Property_find c (loc_state l) of
                  Inl err \<Rightarrow> getGlobalMarketData now
                | Inr properties \<Rightarrow>
                    if length properties = 0 then getGlobalMarketData now
                    else
                      (let totalRent = foldl (\<lambda>sum prop. jadd sum (rent_or_zero (doc_rent prop)))
                                             (Fin 0) properties;
                           avg = jdiv totalRent (Fin (real (length properties)));
                           propertyTypes = foldl count_type [] properties
                       in JObj [(''location'', JObj [(''city'', JStr c),
                                                     (''state'', field_value (loc_state l))]),
                                (''averageRent'', JNum (Math_round avg)),
                                (''propertyTypeDistribution'', JObj propertyTypes),
                                (''totalListings'', JNum (Fin (real (length properties)))),
                                (''lastUpdated'', JDate now)]))))"

text \<open>
  \<open>getPriceTrends(location, months = 12)\<close>: one entry for each month from
  \<open>months - 1\<close> down to \<open>0\<close>. \<open>month_before i\<close> is the ISO date of the day \<open>i\<close> months
  before now, \<open>random k\<close> is the value of the \<open>k\<close>-th call of \<open>Math.random()\<close>.
\<close>

fun price_trends_loop :: "(nat \<Rightarrow> string) \<Rightarrow> (nat \<Rightarrow> real) \<Rightarrow> nat \<Rightarrow> nat \<Rightarrow> jval list" where
  "price_trends_loop month_before random 0 k = []"
| "price_trends_loop month_before random (Suc i) k =
     (let base = Fin (1200 + (random k * 600 - 300))
      in JObj [(''date'', JStr (month_before i)),
               (''averageRent'', JNum (Math_round (jadd base (Fin (real i * 20)))))]
         # price_trends_loop month_before random i (Suc k))"

definition getPriceTrends ::
  "(nat \<Rightarrow> string) \<Rightarrow> (nat \<Rightarrow> real) \<Rightarrow> location option \<Rightarrow> nat option \<Rightarrow> jval" where
  "getPriceTrends month_before random loc months =
     JArr (price_trends_loop month_before random (case months of None \<Rightarrow> 12 | Some n \<Rightarrow> n) 0)"

text \<open>
  The route's own \<open>getMarketData(property)\<close>: figures drawn around the listing's rent.
  \<open>random k\<close> is the \<open>k\<close>-th call of \<open>Math.random()\<close>, \<open>now\<close> the clock's ISO string.
\<close>

definition marketHealth_at :: "real \<Rightarrow> jval" where
  "marketHealth_at r =
     (let i = \<lfloor>r * 3\<rfloor>
      in if i = 0 then JStr ''growing'' else if i = 1 then JStr ''stable''
         else if i = 2 then JStr ''declining'' else JUndefined)"

definition getMarketData :: "(nat \<Rightarrow> real) \<Rightarrow> string \<Rightarrow> listing \<Rightarrow> jval" where
  "getMarketData random now property =
     (let has_rent = field_truthy (pricing_rent property);
          has_area = field_truthy (specifications_squareFootage property);
          k1 = (if has_rent then 1 else 0);
          k2 = (if has_area then k1 + 1 else k1)
      in JObj [(''averageRent'',
                  if has_rent
                  then JNum (Math_round (jmul (to_number (pricing_rent property))
                                              (Fin (0.9 + random 0 * 0.2))))
                  else JNull),
               (''averagePricePerSqFt'',
                  if has_area
                  then JNum (jmul (jdiv (if has_rent then to_number (pricing_rent property) else Fin 0)
                                        (to_number (specifications_squareFootage property)))
                                  (Fin (0.8 + random k1 * 0.4)))
                  else JNull),
               (''marketHealth'', marketHealth_at (random k2)),
               (''lastUpdated'', JStr now)])"

section \<open>The smart recommendations route\<close>

text \<open>
  The route requires \<open>../services/marketDataService\<close> and calls its member
  \<open>getMarketData\<close> for every listing the query found. That module exports
  \<open>calculateRentPrice\<close> and \<open>getMarketTrends\<close> only: the member is \<open>undefined\<close>, and
  calling it is a TypeError. (The other service module, \<open>services/marketData.js\<close>,
  has an asynchronous \<open>getMarketData(location)\<close>; its promise has no \<open>avgRent\<close>, and
  reading a key of that is a TypeError as well.)
\<close>

definition marketDataService_getMarketData :: "(listing \<Rightarrow> marketData) option" where
  "marketDataService_getMarketData = None"

datatype route_error = TypeError

text \<open>The callback of \<open>properties.map\<close>: it raises where the service member is missing.\<close>

definition score_property :: "preferences \<Rightarrow> listing \<Rightarrow> route_error + scored" where
  "score_property prefs property =
     (case marketDataService_getMarketData of
        None \<Rightarrow> Inl TypeError
      | Some service_member \<Rightarrow>
          Inr \<lparr> scored_listing = property,
                smartScore = calculateSmartScore property prefs (service_member property) \<rparr>)"

text \<open>\<open>Array.prototype.map\<close> with a callback that may raise: the first error ends the map.\<close>

fun map_throwing :: "('a \<Rightarrow> 'e + 'b) \<Rightarrow> 'a list \<Rightarrow> 'e + 'b list" where
  "map_throwing f [] = Inr []"
| "map_throwing f (x # xs) =
     (case f x of
        Inl e \<Rightarrow> Inl e
      | Inr y \<Rightarrow> (case map_throwing f xs of Inl e \<Rightarrow> Inl e | Inr ys \<Rightarrow> Inr (y # ys)))"

text \<open>
  The request body holds \<open>preferences\<close>, \<open>location\<close> and \<open>budget\<close>; the handler reads a
  member of each, which raises when the object is missing.
\<close>

record request =
  req_preferences :: "preferences option"
  req_location :: "location option"
  req_budget :: "budget option"

text \<open>
  The two answers of the handler: the JSON body with \<open>recommendations\<close> and
  \<open>totalFound\<close>, or status 500 from its \<open>catch\<close>.
\<close>

datatype response = Json_recommendations "scored list" nat | Status_500

text \<open>
  The handler. \<open>store\<close> is the outcome of its reads of the store: the user and the
  active listings that match the request, newest first, at most 50; \<open>Inl\<close> when a read
  fails.
\<close>

definition smart_recommendations :: "request \<Rightarrow> db_error + listing list \<Rightarrow> response" where
  "smart_recommendations req store =
     (case (req_preferences req, req_location req, req_budget req) of
        (Some prefs, Some loc, Some bud) \<Rightarrow>
          (case store of
             Inl err \<Rightarrow> Status_500
           | Inr found \<Rightarrow>
               (case map_throwing (score_property prefs) found of
                  Inl e \<Rightarrow> Status_500
                | Inr properties \<Rightarrow>
                    (let ranked = js_sort (\<lambda>a b. jsub (smartScore b) (smartScore a)) properties
                     in Json_recommendations (take 20 ranked) (length ranked))))
      | _ \<Rightarrow> Status_500)"

section \<open>Notions for stating the properties\<close>

text \<open>
  The order the ranking establishes: scores descend, and of two equal scores the
  element that \<open>Q\<close> puts first comes first.
\<close>

definition ranked_before :: "('a \<Rightarrow> jsnum) \<Rightarrow> ('a \<Rightarrow> 'a \<Rightarrow> bool) \<Rightarrow> 'a \<Rightarrow> 'a \<Rightarrow> bool" where
  "ranked_before key Q a b \<longleftrightarrow> jle (key b) (key a) \<and> (key a \<noteq> key b \<or> Q a b)"

text \<open>The cases in which the service has no aggregate to compute.\<close>

definition insufficient_data ::
  "(string \<Rightarrow> string field \<Rightarrow> db_error + doc list) \<Rightarrow> location option \<Rightarrow> bool" where
  "insufficient_data Property_find loc =
     (case loc of
        None \<Rightarrow> True
      | Some l \<Rightarrow>
          (case city_given (loc_city l) of
             None \<Rightarrow> True
           | Some c \<Rightarrow>
               (case Property_find c (loc_state l) of
                  Inl err \<Rightarrow> True
                | Inr properties \<Rightarrow> properties = [])))"

section \<open>Properties of the rent price calculator\<close>

lemmas table_defs = BASE_PRICES_def LOCATION_MULTIPLIERS_def AMENITY_VALUES_def
  BEDROOM_MULTIPLIERS_def BATHROOM_MULTIPLIERS_def Object_prototype_keys_def

lemmas rent_defs = calculateRentPrice_def toLowerCase_def lower_char_def js_get_def jsub_def Let_def

lemma is_fin_eq: "is_fin x \<Longrightarrow> x = Fin (the_fin x)"
  by (cases x) simp_all

lemma location_lookup_key:
  "f \<noteq> Null \<Longrightarrow> location_lookup f = Inr (or_default (js_get LOCATION_MULTIPLIERS (key_of f)) 1)"
  by (cases f) (simp_all add: toLowerCase_def)

lemma calculateRentPrice_returns:
  "(\<exists>e. calculateRentPrice p = Inr e) \<longleftrightarrow> city p \<noteq> Null \<and> state p \<noteq> Null"
  by (cases "city p"; cases "state p") (simp_all add: calculateRentPrice_def Let_def)

lemma location_values:
  assumes "k \<notin> set Object_prototype_keys"
  shows "or_default (js_get LOCATION_MULTIPLIERS k) 1 \<in>
           {Fin 0.9, Fin 1, Fin 1.1, Fin 1.2, Fin 1.3, Fin 1.4, Fin 1.6, Fin 1.7, Fin 1.8}"
  using assms by (simp add: js_get_def LOCATION_MULTIPLIERS_def)

lemma location_low:
  "or_default (js_get LOCATION_MULTIPLIERS k) 1 = Fin 0.9 \<longleftrightarrow> k = ''andhra pradesh''"
  by (simp add: js_get_def LOCATION_MULTIPLIERS_def Object_prototype_keys_def)

lemma location_ge:
  assumes "k \<notin> set Object_prototype_keys"
  defines "X \<equiv> or_default (js_get LOCATION_MULTIPLIERS k) 1"
  shows "is_fin X" and "9 / 10 \<le> the_fin X" and "the_fin X < 1 \<Longrightarrow> k = ''andhra pradesh''"
    and "toFixed2 X = X"
proof -
  have v: "X \<in> {Fin 0.9, Fin 1, Fin 1.1, Fin 1.2, Fin 1.3, Fin 1.4, Fin 1.6, Fin 1.7, Fin 1.8}"
    unfolding X_def by (rule location_values [OF assms(1)])
  then show "is_fin X" "9 / 10 \<le> the_fin X" "toFixed2 X = X" by auto
  show "k = ''andhra pradesh''" if "the_fin X < 1"
  proof -
    from v that have "X = Fin 0.9" by auto
    then show ?thesis unfolding X_def by (simp only: location_low)
  qed
qed

text \<open>
  Claim C10, as amended. The claim says the location multiplier of every estimate is at
  least 1.0. The table holds one entry below 1.0, \<open>'andhra pradesh': 0.9\<close>, and the
  city and the state are looked up in the same table: when both names are
  \<open>andhra pradesh\<close> the multiplier is 0.9. What holds, for a city and a state that do not
  name a property inherited from \<open>Object.prototype\<close>: the multiplier is the greater of
  the two lookups (each 1.0 when the name is unknown), it is at least 0.9, so the floor
  of 0.8 never binds, and it is below 1.0 only when both lookups meet \<open>andhra pradesh\<close>.
\<close>

theorem locationMultiplier_at_least_nine_tenths:
  assumes ret: "calculateRentPrice p = Inr e"
      and kc: "key_of (city p) \<notin> set Object_prototype_keys"
      and ks: "key_of (state p) \<notin> set Object_prototype_keys"
  shows "locationMultiplier e =
           Math_max (or_default (js_get LOCATION_MULTIPLIERS (key_of (city p))) 1)
                    (or_default (js_get LOCATION_MULTIPLIERS (key_of (state p))) 1)
       \<and> jle (Fin 0.9) (locationMultiplier e)
       \<and> (jlt (locationMultiplier e) (Fin 1) \<longrightarrow>
            key_of (city p) = ''andhra pradesh'' \<and> key_of (state p) = ''andhra pradesh'')"
proof -
  from ret have nn: "city p \<noteq> Null" "state p \<noteq> Null"
    using calculateRentPrice_returns [of p] by auto
  obtain c where c: "or_default (js_get LOCATION_MULTIPLIERS (key_of (city p))) 1 = Fin c"
      "9 / 10 \<le> c" "c < 1 \<Longrightarrow> key_of (city p) = ''andhra pradesh''" "toFixed2 (Fin c) = Fin c"
    using location_ge [OF kc] is_fin_eq by (metis the_fin.simps(1))
  obtain s where s: "or_default (js_get LOCATION_MULTIPLIERS (key_of (state p))) 1 = Fin s"
      "9 / 10 \<le> s" "s < 1 \<Longrightarrow> key_of (state p) = ''andhra pradesh''" "toFixed2 (Fin s) = Fin s"
    using location_ge [OF ks] is_fin_eq by (metis the_fin.simps(1))
  have m: "Math_max (Math_max (Fin c) (Fin s)) (Fin 0.8) = Fin (max c s)"
    using c(2) s(2) by (auto simp: max_def)
  have fixed: "toFixed2 (Fin (max c s)) = Fin (max c s)"
    using c(4) s(4) by (simp add: max_def)
  have "locationMultiplier e = Fin (max c s)"
    using ret nn c(1) s(1) m fixed
    by (auto simp add: calculateRentPrice_def location_lookup_key Let_def
             simp del: toFixed2.simps Math_max.simps)
  moreover have "Math_max (Fin c) (Fin s) = Fin (max c s)"
    by (simp add: max_def)
  ultimately show ?thesis
    using c s by (auto simp: max_def split: if_splits)
qed


theorem locationMultiplier_at_least_nine_tenths_witness:
  "calculateRentPrice
     \<lparr> propertyType = Given ''house'', bedrooms = Given (Fin 3), bathrooms = Given (Fin 2),
       squareFootage = Given (Fin 1200), city = Given ''Pune'', state = Given ''Andhra Pradesh'',
       amenities = Given [''lift''] \<rparr>
   = Inr \<lparr> basePrice = Fin 10483200, amenitiesValue = Fin 800, totalPrice = Fin 10484000,
           priceRange = \<lparr> range_min = Fin 8911400, range_max = Fin 12056600,
                          currency = ''INR'', period = ''month'' \<rparr>,
           locationMultiplier = Fin 1.3, bedroomMultiplier = Fin 1.6,
           bathroomMultiplier = Fin 1.2 \<rparr>
   \<and> key_of (Given ''Pune'') \<notin> set Object_prototype_keys
   \<and> key_of (Given ''Andhra Pradesh'') \<notin> set Object_prototype_keys
   \<and> jle (Fin 0.9) (Fin 1.3)"
proof -
  let ?p = "\<lparr> propertyType = Given ''house'', bedrooms = Given (Fin 3),
              bathrooms = Given (Fin 2), squareFootage = Given (Fin 1200),
              city = Given ''Pune'', state = Given ''Andhra Pradesh'',
              amenities = Given [''lift''] \<rparr>"
  let ?e = "\<lparr> basePrice = Fin 10483200, amenitiesValue = Fin 800, totalPrice = Fin 10484000,
              priceRange = \<lparr> range_min = Fin 8911400, range_max = Fin 12056600,
                             currency = ''INR'', period = ''month'' \<rparr>,
              locationMultiplier = Fin 1.3, bedroomMultiplier = Fin 1.6,
              bathroomMultiplier = Fin 1.2 \<rparr>"
  have ret: "calculateRentPrice ?p = Inr ?e"
    by (simp add: rent_defs table_defs)
  have kc: "key_of (city ?p) \<notin> set Object_prototype_keys"
    by (simp add: toLowerCase_def lower_char_def Object_prototype_keys_def)
  have ks: "key_of (state ?p) \<notin> set Object_prototype_keys"
    by (simp add: toLowerCase_def lower_char_def Object_prototype_keys_def)
  from locationMultiplier_at_least_nine_tenths [OF ret kc ks]
  have "jle (Fin 0.9) (locationMultiplier ?e)"
    by (elim conjE)
  with ret kc ks show ?thesis
    by simp
qed

text \<open>Claim C10 as stated fails: city and state \<open>Andhra Pradesh\<close> give the multiplier 0.9.\<close>

theorem locationMultiplier_below_one_counterexample:
  "calculateRentPrice
     \<lparr> propertyType = Given ''apartment'', bedrooms = Given (Fin 2), bathrooms = Given (Fin 1),
       squareFootage = Given (Fin 900), city = Given ''Andhra Pradesh'',
       state = Given ''Andhra Pradesh'', amenities = Given [] \<rparr>
   = Inr \<lparr> basePrice = Fin 4212000, amenitiesValue = Fin 0, totalPrice = Fin 4212000,
           priceRange = \<lparr> range_min = Fin 3580200, range_max = Fin 4843800,
                          currency = ''INR'', period = ''month'' \<rparr>,
           locationMultiplier = Fin 0.9, bedroomMultiplier = Fin 1.3,
           bathroomMultiplier = Fin 1 \<rparr>
   \<and> \<not> jle (Fin 1) (Fin 0.9)"
  by (simp add: rent_defs table_defs)

text \<open>
  Claim C6. For an apartment of 900 square feet with 2 bedrooms and 1 bathroom in
  mumbai with parking and a gym, the base price is \<open>4000 \<times> 900 \<times> 1.8 \<times> 1.3 \<times> 1.0\<close>, the
  amenities are worth \<open>1000 + 1500\<close>, the total is their sum, and the range is the total
  minus and plus 15 percent, rounded.
\<close>

theorem pricing_example:
  "calculateRentPrice
     \<lparr> propertyType = Given ''apartment'', bedrooms = Given (Fin 2), bathrooms = Given (Fin 1),
       squareFootage = Given (Fin 900), city = Given ''mumbai'', state = Absent,
       amenities = Given [''parking'', ''gym''] \<rparr>
   = Inr \<lparr> basePrice = Fin (4000 * 900 * 1.8 * 1.3 * 1.0),
           amenitiesValue = Fin (1000 + 1500),
           totalPrice = Fin (4000 * 900 * 1.8 * 1.3 * 1.0 + 2500),
           priceRange = \<lparr> range_min = Math_round (Fin (8426500 - 8426500 * 0.15)),
                          range_max = Math_round (Fin (8426500 + 8426500 * 0.15)),
                          currency = ''INR'', period = ''month'' \<rparr>,
           locationMultiplier = Fin 1.8, bedroomMultiplier = Fin 1.3,
           bathroomMultiplier = Fin 1.0 \<rparr>"
  by (simp add: rent_defs table_defs)

text \<open>
  Claim C3, as amended. The claim says that the calculator raises
  \<open>InvalidPropertyDataError\<close> on NaN or negative numbers. It has no such check and no
  such error: for every property whose city and state are not null it returns an
  estimate, whatever the numeric fields hold. A NaN square footage is priced as 1000
  square feet, and a NaN or negative count of bedrooms or bathrooms is priced as one
  room (multiplier 1.0).
\<close>

theorem malformed_numbers_priced:
  assumes "city p \<noteq> Null" and "state p \<noteq> Null"
  shows "(\<exists>e. calculateRentPrice p = Inr e)
       \<and> calculateRentPrice (p\<lparr>squareFootage := Given NaN\<rparr>)
           = calculateRentPrice (p\<lparr>squareFootage := Given (Fin 1000)\<rparr>)
       \<and> calculateRentPrice (p\<lparr>bedrooms := Given NaN\<rparr>)
           = calculateRentPrice (p\<lparr>bedrooms := Given (Fin 1)\<rparr>)
       \<and> calculateRentPrice (p\<lparr>bathrooms := Given NaN\<rparr>)
           = calculateRentPrice (p\<lparr>bathrooms := Given (Fin 1)\<rparr>)
       \<and> (\<forall>n<0. calculateRentPrice (p\<lparr>bedrooms := Given (Fin n)\<rparr>)
                   = calculateRentPrice (p\<lparr>bedrooms := Given (Fin 1)\<rparr>)
                 \<and> calculateRentPrice (p\<lparr>bathrooms := Given (Fin n)\<rparr>)
                   = calculateRentPrice (p\<lparr>bathrooms := Given (Fin 1)\<rparr>))"
proof -
  have 1: "\<exists>e. calculateRentPrice p = Inr e"
    using assms calculateRentPrice_returns by blast
  have 2: "calculateRentPrice (p\<lparr>squareFootage := Given NaN\<rparr>)
           = calculateRentPrice (p\<lparr>squareFootage := Given (Fin 1000)\<rparr>)"
    by (simp add: calculateRentPrice_def Let_def split: sum.splits)
  have 3: "calculateRentPrice (p\<lparr>bedrooms := Given NaN\<rparr>)
           = calculateRentPrice (p\<lparr>bedrooms := Given (Fin 1)\<rparr>)"
    by (simp add: calculateRentPrice_def BEDROOM_MULTIPLIERS_def Let_def split: sum.splits)
  have 4: "calculateRentPrice (p\<lparr>bathrooms := Given NaN\<rparr>)
           = calculateRentPrice (p\<lparr>bathrooms := Given (Fin 1)\<rparr>)"
    by (simp add: calculateRentPrice_def BATHROOM_MULTIPLIERS_def Let_def split: sum.splits)
  have 5: "calculateRentPrice (p\<lparr>bedrooms := Given (Fin n)\<rparr>)
           = calculateRentPrice (p\<lparr>bedrooms := Given (Fin 1)\<rparr>)" if "n < 0" for n
    using that by (simp add: calculateRentPrice_def BEDROOM_MULTIPLIERS_def Let_def split: sum.splits)
  have 6: "calculateRentPrice (p\<lparr>bathrooms := Given (Fin n)\<rparr>)
           = calculateRentPrice (p\<lparr>bathrooms := Given (Fin 1)\<rparr>)" if "n < 0" for n
    using that by (simp add: calculateRentPrice_def BATHROOM_MULTIPLIERS_def Let_def split: sum.splits)
  show ?thesis using 1 2 3 4 5 6 by blast
qed

theorem malformed_numbers_priced_witness:
  "city \<lparr> propertyType = Given ''apartment'', bedrooms = Given (Fin (- 2)), bathrooms = Given NaN,
          squareFootage = Given NaN, city = Given ''mumbai'', state = Absent,
          amenities = Given [''parking'', ''gym''] \<rparr> \<noteq> Null
   \<and> state \<lparr> propertyType = Given ''apartment'', bedrooms = Given (Fin (- 2)), bathrooms = Given NaN,
          squareFootage = Given NaN, city = Given ''mumbai'', state = Absent,
          amenities = Given [''parking'', ''gym''] \<rparr> \<noteq> Null
   \<and> (\<exists>e. calculateRentPrice
          \<lparr> propertyType = Given ''apartment'', bedrooms = Given (Fin (- 2)), bathrooms = Given NaN,
            squareFootage = Given NaN, city = Given ''mumbai'', state = Absent,
            amenities = Given [''parking'', ''gym''] \<rparr> = Inr e)"
proof -
  let ?p = "\<lparr> propertyType = Given ''apartment'', bedrooms = Given (Fin (- 2)),
              bathrooms = Given NaN, squareFootage = Given NaN, city = Given ''mumbai'',
              state = Absent, amenities = Given [''parking'', ''gym''] \<rparr>"
  have c: "city ?p \<noteq> Null" and s: "state ?p \<noteq> Null"
    by simp_all
  from malformed_numbers_priced [OF c s] have "\<exists>e. calculateRentPrice ?p = Inr e"
    by (rule conjunct1)
  with c s show ?thesis
    by (intro conjI)
qed

text \<open>
  Claim C3 as stated fails: NaN square footage, \<open>-2\<close> bedrooms and NaN bathrooms are
  defaulted without an error, and a price comes back.
\<close>

theorem malformed_numbers_counterexample:
  "calculateRentPrice
     \<lparr> propertyType = Given ''apartment'', bedrooms = Given (Fin (- 2)), bathrooms = Given NaN,
       squareFootage = Given NaN, city = Given ''mumbai'', state = Absent,
       amenities = Given [''parking'', ''gym''] \<rparr>
   = Inr \<lparr> basePrice = Fin 7200000, amenitiesValue = Fin 2500, totalPrice = Fin 7202500,
           priceRange = \<lparr> range_min = Fin 6122125, range_max = Fin 8282875,
                          currency = ''INR'', period = ''month'' \<rparr>,
           locationMultiplier = Fin 1.8, bedroomMultiplier = Fin 1,
           bathroomMultiplier = Fin 1 \<rparr>"
  by (simp add: rent_defs table_defs)

text \<open>A negative square footage is not defaulted: it goes through, and the price is negative.\<close>

lemma negative_area_priced:
  "calculateRentPrice
     \<lparr> propertyType = Given ''apartment'', bedrooms = Given (Fin 2), bathrooms = Given (Fin 1),
       squareFootage = Given (Fin (- 900)), city = Given ''mumbai'', state = Absent,
       amenities = Given [''parking'', ''gym''] \<rparr>
   = Inr \<lparr> basePrice = Fin (- 8424000), amenitiesValue = Fin 2500, totalPrice = Fin (- 8421500),
           priceRange = \<lparr> range_min = Fin (- 7158275), range_max = Fin (- 9684725),
                          currency = ''INR'', period = ''month'' \<rparr>,
           locationMultiplier = Fin 1.8, bedroomMultiplier = Fin 1.3,
           bathroomMultiplier = Fin 1 \<rparr>"
  by (simp add: rent_defs table_defs)

text \<open>
  Claim C5 says that for well-formed non-negative numbers the range brackets the total
  and is non-negative. An amenity tag that names an inherited property
  (\<open>constructor\<close>) is not read as unknown: the total and both bounds are NaN, and no
  comparison with NaN holds.
\<close>

theorem inherited_amenity_breaks_price_range:
  "calculateRentPrice
     \<lparr> propertyType = Given ''apartment'', bedrooms = Given (Fin 2), bathrooms = Given (Fin 1),
       squareFootage = Given (Fin 900), city = Given ''mumbai'', state = Absent,
       amenities = Given [''parking'', ''constructor''] \<rparr>
   = Inr \<lparr> basePrice = Fin 8424000, amenitiesValue = NaN, totalPrice = NaN,
           priceRange = \<lparr> range_min = NaN, range_max = NaN,
                          currency = ''INR'', period = ''month'' \<rparr>,
           locationMultiplier = Fin 1.8, bedroomMultiplier = Fin 1.3,
           bathroomMultiplier = Fin 1 \<rparr>
   \<and> \<not> jle NaN NaN \<and> \<not> jle (Fin 0) NaN"
  by (simp add: rent_defs table_defs)

text \<open>
  Claim C7 says that an unknown property type, city, state or amenity takes its default
  and the total is positive. The unknown property type \<open>constructor\<close> reads the
  inherited property instead of the default base price: the total is NaN, which is not
  greater than zero.
\<close>

theorem inherited_propertyType_breaks_total:
  "calculateRentPrice
     \<lparr> propertyType = Given ''constructor'', bedrooms = Given (Fin 2), bathrooms = Given (Fin 1),
       squareFootage = Given (Fin 900), city = Given ''mumbai'', state = Absent,
       amenities = Given [''parking'', ''gym''] \<rparr>
   = Inr \<lparr> basePrice = NaN, amenitiesValue = Fin 2500, totalPrice = NaN,
           priceRange = \<lparr> range_min = NaN, range_max = NaN,
                          currency = ''INR'', period = ''month'' \<rparr>,
           locationMultiplier = Fin 1.8, bedroomMultiplier = Fin 1.3,
           bathroomMultiplier = Fin 1 \<rparr>
   \<and> \<not> jlt (Fin 0) NaN"
  by (simp add: rent_defs table_defs)

lemma base_price_ge:
  assumes "k \<notin> set Object_prototype_keys"
  defines "X \<equiv> or_default (js_get BASE_PRICES k) 4000"
  shows "is_fin X" and "3500 \<le> the_fin X"
proof -
  have "X \<in> {Fin 3500, Fin 4000, Fin 4500, Fin 5000, Fin 6000}"
    unfolding X_def using assms(1) by (simp add: js_get_def BASE_PRICES_def)
  then show "is_fin X" "3500 \<le> the_fin X" by auto
qed

lemma area_pos:
  assumes "nonneg_field f"
  shows "is_fin (area_of f)" and "0 < the_fin (area_of f)"
  using assms by (cases f rule: nonneg_field.cases; simp)+

lemma area_whole:
  assumes "whole_field f"
  shows "nonneg_field f" and "1 \<le> the_fin (area_of f)"
proof -
  show "nonneg_field f"
    using assms by (cases f rule: whole_field.cases) simp_all
  show "1 \<le> the_fin (area_of f)"
  proof (cases f rule: whole_field.cases)
    case (1 r)
    with assms have r: "0 \<le> r" "r = of_int \<lfloor>r\<rfloor>" by simp_all
    show ?thesis
    proof (cases "r = 0")
      case True
      with 1 show ?thesis by simp
    next
      case False
      with r have "0 < \<lfloor>r\<rfloor>" by (metis floor_less_zero less_eq_real_def not_less of_int_0 order_neq_le_trans zero_le_floor)
      then have "1 \<le> \<lfloor>r\<rfloor>" by simp
      then have "1 \<le> r" using r(2) by linarith
      with 1 False show ?thesis by simp
    qed
  qed (use assms in simp_all)
qed

lemma room_ge:
  assumes "tbl = BEDROOM_MULTIPLIERS \<or> tbl = BATHROOM_MULTIPLIERS"
  shows "is_fin (room_multiplier tbl f)" and "1 \<le> the_fin (room_multiplier tbl f)"
  using assms
  by (cases "(tbl, f)" rule: room_multiplier.cases;
      auto simp: BEDROOM_MULTIPLIERS_def BATHROOM_MULTIPLIERS_def)+

lemma amenity_value_ge:
  assumes "k \<notin> set Object_prototype_keys"
  defines "X \<equiv> or_default (js_get AMENITY_VALUES k) 0"
  shows "is_fin X" and "0 \<le> the_fin X"
proof -
  have "X \<in> {Fin 0, Fin 500, Fin 800, Fin 1000, Fin 1500, Fin 2000}"
    unfolding X_def using assms(1) by (simp add: js_get_def AMENITY_VALUES_def)
  then show "is_fin X" "0 \<le> the_fin X" by auto
qed

lemma amenities_reduce_ge:
  assumes "list_all (\<lambda>a. toLowerCase a \<notin> set Object_prototype_keys) xs" and "0 \<le> t"
  shows "is_fin (amenities_reduce (Fin t) xs) \<and> 0 \<le> the_fin (amenities_reduce (Fin t) xs)"
  using assms
proof (induction xs arbitrary: t)
  case Nil
  then show ?case by simp
next
  case (Cons x xs)
  from Cons.prems have "toLowerCase x \<notin> set Object_prototype_keys" by simp
  from amenity_value_ge [OF this]
  obtain v where v: "or_default (js_get AMENITY_VALUES (toLowerCase x)) 0 = Fin v" "0 \<le> v"
    using is_fin_eq by blast
  show ?case
    using Cons.IH [of "t + v"] Cons.prems v by simp
qed

lemma amenities_total_ge:
  assumes "plain_keys p"
  shows "is_fin (amenities_total (amenities p))" and "0 \<le> the_fin (amenities_total (amenities p))"
  using assms amenities_reduce_ge [of _ 0]
  by (cases "amenities p"; simp add: plain_keys_def)+

text \<open>
  The shape of every estimate computed from finite non-negative numbers and keys that
  are the tables' own or unknown: the unrounded total is a positive real \<open>t\<close>, at least
  \<open>3150\<close> times the area.
\<close>

lemma estimate_shape:
  assumes keys: "plain_keys p"
      and area: "nonneg_field (squareFootage p)"
      and ret: "calculateRentPrice p = Inr e"
  obtains t where
      "3150 * the_fin (area_of (squareFootage p)) \<le> t"
      "totalPrice e = Math_round (Fin t)"
      "range_min (priceRange e) = Math_round (Fin (t - t * 0.15))"
      "range_max (priceRange e) = Math_round (Fin (t + t * 0.15))"
proof -
  from ret have nn: "city p \<noteq> Null" "state p \<noteq> Null"
    using calculateRentPrice_returns [of p] by auto
  from keys have k: "propertyType_of (propertyType p) \<notin> set Object_prototype_keys"
      "key_of (city p) \<notin> set Object_prototype_keys" "key_of (state p) \<notin> set Object_prototype_keys"
    by (simp_all add: plain_keys_def)
  obtain b where b: "or_default (js_get BASE_PRICES (propertyType_of (propertyType p))) 4000 = Fin b"
      "3500 \<le> b"
    using base_price_ge [OF k(1)] is_fin_eq by blast
  obtain a where a: "area_of (squareFootage p) = Fin a" "0 < a"
    using area_pos [OF area] is_fin_eq by blast
  obtain c where c: "or_default (js_get LOCATION_MULTIPLIERS (key_of (city p))) 1 = Fin c"
      "9 / 10 \<le> c"
    using location_ge(1,2) [OF k(2)] is_fin_eq by blast
  obtain s where s: "or_default (js_get LOCATION_MULTIPLIERS (key_of (state p))) 1 = Fin s"
      "9 / 10 \<le> s"
    using location_ge(1,2) [OF k(3)] is_fin_eq by blast
  obtain r1 where r1: "room_multiplier BEDROOM_MULTIPLIERS (bedrooms p) = Fin r1" "1 \<le> r1"
    using room_ge [of BEDROOM_MULTIPLIERS "bedrooms p"] is_fin_eq by blast
  obtain r2 where r2: "room_multiplier BATHROOM_MULTIPLIERS (bathrooms p) = Fin r2" "1 \<le> r2"
    using room_ge [of BATHROOM_MULTIPLIERS "bathrooms p"] is_fin_eq by blast
  obtain v where v: "amenities_total (amenities p) = Fin v" "0 \<le> v"
    using amenities_total_ge [OF keys] is_fin_eq by blast
  define m where "m = max c s"
  have m: "Math_max (Math_max (Fin c) (Fin s)) (Fin 0.8) = Fin m" "9 / 10 \<le> m"
    using c(2) s(2) by (auto simp: m_def max_def)
  define t where "t = b * a * m * (r1 * r2) + v"
  have "3500 * a \<le> b * a" using b(2) a(2) by simp
  moreover have "9 / 10 \<le> m * (r1 * r2)"
  proof -
    have "1 * 1 \<le> r1 * r2" using r1(2) r2(2) by (intro mult_mono) simp_all
    then have "1 \<le> r1 * r2" by simp
    then have "m * 1 \<le> m * (r1 * r2)" using m(2) by (intro mult_left_mono) simp_all
    then have "m \<le> m * (r1 * r2)" by simp
    with m(2) show ?thesis by (rule order_trans)
  qed
  ultimately have "(3500 * a) * (9 / 10) \<le> (b * a) * (m * (r1 * r2))"
    using a(2) by (intro mult_mono) simp_all
  then have low: "3150 * a \<le> t"
    using v(2) by (simp add: t_def mult.assoc)
  have e: "totalPrice e = Math_round (Fin t)"
          "range_min (priceRange e) = Math_round (Fin (t - t * 0.15))"
          "range_max (priceRange e) = Math_round (Fin (t + t * 0.15))"
    using ret nn b(1) a(1) c(1) s(1) r1(1) r2(1) v(1) m(1)
    by (auto simp add: calculateRentPrice_def location_lookup_key Let_def jsub_def t_def
             simp del: toFixed2.simps Math_max.simps)
  show thesis
    by (rule that [of t]) (use low a e in simp_all)
qed

text \<open>
  Outside the inherited names the price range brackets the total and is non-negative,
  for every finite non-negative square footage.
\<close>

lemma price_range_brackets_total:
  assumes "plain_keys p" and "nonneg_field (squareFootage p)" and "calculateRentPrice p = Inr e"
  shows "jle (Fin 0) (range_min (priceRange e))
       \<and> jle (range_min (priceRange e)) (totalPrice e)
       \<and> jle (totalPrice e) (range_max (priceRange e))"
proof -
  obtain t where t: "3150 * the_fin (area_of (squareFootage p)) \<le> t"
      "totalPrice e = Math_round (Fin t)"
      "range_min (priceRange e) = Math_round (Fin (t - t * 0.15))"
      "range_max (priceRange e) = Math_round (Fin (t + t * 0.15))"
    using assms by (rule estimate_shape)
  have "0 < t" using t(1) area_pos(2) [OF assms(2)] by linarith
  then have "(0::int) \<le> \<lfloor>t - t * 0.15 + 1 / 2\<rfloor>"
        "\<lfloor>t - t * 0.15 + 1 / 2\<rfloor> \<le> \<lfloor>t + 1 / 2\<rfloor>"
        "\<lfloor>t + 1 / 2\<rfloor> \<le> \<lfloor>t + t * 0.15 + 1 / 2\<rfloor>"
    by (simp_all add: floor_mono)
  then show ?thesis
    using t(2,3,4) by (auto simp: less_le)
qed

text \<open>
  Outside the inherited names the total is positive, for every whole non-negative
  square footage.
\<close>

lemma total_price_positive:
  assumes "plain_keys p" and "whole_field (squareFootage p)" and "calculateRentPrice p = Inr e"
  shows "jlt (Fin 0) (totalPrice e)"
proof -
  obtain t where t: "3150 * the_fin (area_of (squareFootage p)) \<le> t"
      "totalPrice e = Math_round (Fin t)"
    using assms(1) area_whole(1) [OF assms(2)] assms(3) by (rule estimate_shape)
  have "3150 \<le> t" using t(1) area_whole(2) [OF assms(2)] by linarith
  then have "(3150::int) \<le> \<lfloor>t + 1 / 2\<rfloor>" by linarith
  then show ?thesis using t(2) by simp
qed

section \<open>Properties of the query parser\<close>

lemmas parse_defs = parseNaturalLanguageQuery_def toLowerCase_def lower_char_def price_pattern_def
  bedroom_pattern_def location_pattern_def is_digit_def is_letter_def is_space_def parseInt_def
  digit_value_def trim_def Let_def

text \<open>
  Claim C2, as amended. The query \<open>2 bedroom apartment in Austin under $2000\<close> parses
  to the filters \<open>maxRent = 2000\<close>, \<open>bedrooms = 2\<close> and \<open>city = austin under\<close>: the query is
  lower-cased before it is matched, and the city is the longest run of letters and blanks
  after the first \<open>in \<close>, trimmed, which does not stop at the keyword \<open>under\<close>. The query
  \<open>apartment with a pool\<close> parses to the empty filter object.
\<close>

theorem parser_examples:
  "parseNaturalLanguageQuery ''2 bedroom apartment in Austin under $2000'' =
     \<lparr> maxRent = Some (Fin 2000), bedrooms_filter = Some (Fin 2),
       city_filter = Some ''austin under'' \<rparr>
   \<and> parseNaturalLanguageQuery ''apartment with a pool'' =
     \<lparr> maxRent = None, bedrooms_filter = None, city_filter = None \<rparr>"
  by (simp add: parse_defs)

text \<open>Claim C2 as stated fails: the city of the first query is not \<open>Austin\<close>.\<close>

theorem parser_city_counterexample:
  "parseNaturalLanguageQuery ''2 bedroom apartment in Austin under $2000'' \<noteq>
     \<lparr> maxRent = Some (Fin 2000), bedrooms_filter = Some (Fin 2),
       city_filter = Some ''Austin'' \<rparr>"
  by (simp add: parse_defs)

section \<open>Properties of the scoring functions\<close>

lemmas score_defs = calculateSmartScore_def price_scoring_def amenity_matching_def
  market_position_def quality_indicators_def popularity_def getRelativePricing_def jsub_def Let_def

lemma jadd_NaN [simp]: "jadd x NaN = NaN"
  by (cases x) simp_all

lemma Math_min_NaN [simp]: "Math_min x NaN = NaN"
  by (cases x) simp_all

lemma Math_max_NaN [simp]: "Math_max x NaN = NaN"
  by (cases x) simp_all

text \<open>
  Claim C1 says that \<open>calculateSmartScore\<close> returns a score between 0 and 100 for every
  input and that a missing optional field counts as zero. The final clamp lets NaN
  through: for a budget preference that gives only a maximum the score is NaN, which
  is neither at least 0 nor at most 100.
\<close>

theorem smart_score_budget_without_min:
  "calculateSmartScore
     \<lparr> pricing_rent = Given (Fin 1200), specifications_bedrooms = Given (Fin 2),
       specifications_yearBuilt = Given (Fin 2015), specifications_squareFootage = Given (Fin 900),
       listing_amenities = [''gym'', ''pool''], views = Given (Fin 100), createdAt = 5 \<rparr>
     \<lparr> pref_budget = Some \<lparr> budget_min = Absent, budget_max = Given (Fin 2000) \<rparr>,
       pref_amenities = Some [''gym'', ''parking''] \<rparr>
     \<lparr> avgRent = (\<lambda>k. if k = bed (Given (Fin 2)) then Some (Fin 1500) else None) \<rparr>
   = NaN
   \<and> \<not> jle (Fin 0) NaN \<and> \<not> jle NaN (Fin 100)"
  by (simp add: score_defs)

text \<open>A listing without a view count scores NaN, whatever else it holds.\<close>

lemma smart_score_without_views:
  assumes "views l = Absent"
  shows "calculateSmartScore l prefs md = NaN"
  using assms by (simp add: calculateSmartScore_def popularity_def)

text \<open>NaN is the only way out of the range: every other score is clamped to it.\<close>

lemma smart_score_clamped_or_NaN:
  "calculateSmartScore l prefs md = NaN
   \<or> (jle (Fin 0) (calculateSmartScore l prefs md) \<and> jle (calculateSmartScore l prefs md) (Fin 100))"
proof -
  have "Math_min (Fin 100) (Math_max (Fin 0) s) = NaN
        \<or> (jle (Fin 0) (Math_min (Fin 100) (Math_max (Fin 0) s))
           \<and> jle (Math_min (Fin 100) (Math_max (Fin 0) s)) (Fin 100))" for s
    by (cases s) auto
  then show ?thesis
    by (simp add: calculateSmartScore_def Let_def)
qed

text \<open>A missing year of construction or square footage earns no bonus and does no harm.\<close>

lemma missing_quality_fields_neutral:
  assumes "specifications_yearBuilt l = Absent" and "specifications_squareFootage l = Absent"
  shows "quality_indicators l score =
           (if 5 < length (listing_amenities l) then jadd score (Fin 5) else score)"
  using assms by (simp add: quality_indicators_def)

text \<open>
  Claim C4, as amended. The budget term is binary in \<open>calculatePersonalizedScore\<close> only:
  with a non-zero budget maximum \<open>m\<close> it adds 30 when the rent is at most \<open>m\<close> and
  nothing otherwise. In \<open>calculateSmartScore\<close> the price term is graded: with the
  budget's midpoint \<open>mid = (min + max) / 2\<close> not zero it adds
  \<open>(1 - |rent - mid| / mid) \<times> 30\<close>.
\<close>

theorem budget_terms:
  assumes "user_budget up = Some b" and "budget_max b = Given (Fin m)" and "m \<noteq> 0"
      and "pref_budget prefs = Some b'" and "budget_min b' = Given (Fin lo)"
      and "budget_max b' = Given (Fin hi)" and "lo + hi \<noteq> 0"
      and "pricing_rent l = Given (Fin r)"
  shows "budget_match up l (Fin s) = Fin (if r \<le> m then s + 30 else s)
       \<and> calculatePersonalizedScore l up
           = Math_min (amenity_matches up l (bedroom_match up l (Fin (if r \<le> m then 30 else 0))))
                      (Fin 100)
       \<and> price_scoring prefs l (Fin s)
           = Fin (s + (1 - \<bar>r - (lo + hi) / 2\<bar> / ((lo + hi) / 2)) * 30)
       \<and> calculateSmartScore l prefs md
           = Math_min (Fin 100) (Math_max (Fin 0)
               (popularity l (quality_indicators l (market_position md l (amenity_matching prefs l
                  (Fin (50 + (1 - \<bar>r - (lo + hi) / 2\<bar> / ((lo + hi) / 2)) * 30)))))))"
  using assms
  by (simp add: budget_match_def price_scoring_def calculatePersonalizedScore_def
        calculateSmartScore_def jsub_def Let_def)

theorem budget_terms_witness:
  "budget_match
     \<lparr> user_budget = Some \<lparr> budget_min = Absent, budget_max = Given (Fin 2000) \<rparr>,
       user_bedrooms = None, user_amenities = None \<rparr>
     \<lparr> pricing_rent = Given (Fin 1200), specifications_bedrooms = Given (Fin 2),
       specifications_yearBuilt = Absent, specifications_squareFootage = Absent,
       listing_amenities = [], views = Given (Fin 0), createdAt = 0 \<rparr>
     (Fin 0) = Fin 30
   \<and> price_scoring
     \<lparr> pref_budget = Some \<lparr> budget_min = Given (Fin 1000), budget_max = Given (Fin 2000) \<rparr>,
       pref_amenities = None \<rparr>
     \<lparr> pricing_rent = Given (Fin 1200), specifications_bedrooms = Given (Fin 2),
       specifications_yearBuilt = Absent, specifications_squareFootage = Absent,
       listing_amenities = [], views = Given (Fin 0), createdAt = 0 \<rparr>
     (Fin 50) = Fin 74"
  using budget_terms
    [of "\<lparr> user_budget = Some \<lparr> budget_min = Absent, budget_max = Given (Fin 2000) \<rparr>,
            user_bedrooms = None, user_amenities = None \<rparr>"
        "\<lparr> budget_min = Absent, budget_max = Given (Fin 2000) \<rparr>" 2000
        "\<lparr> pref_budget = Some \<lparr> budget_min = Given (Fin 1000), budget_max = Given (Fin 2000) \<rparr>,
            pref_amenities = None \<rparr>"
        "\<lparr> budget_min = Given (Fin 1000), budget_max = Given (Fin 2000) \<rparr>" 1000 2000
        "\<lparr> pricing_rent = Given (Fin 1200), specifications_bedrooms = Given (Fin 2),
           specifications_yearBuilt = Absent, specifications_squareFootage = Absent,
           listing_amenities = [], views = Given (Fin 0), createdAt = 0 \<rparr>" 1200]
  by simp

text \<open>
  Claim C4 as stated fails for \<open>calculateSmartScore\<close>: a rent of 1200 within the budget
  1000 to 2000 earns 24 points, neither 30 nor 0, and rents of 1200 and 1500, both
  within the budget, score 84 and 90.
\<close>

theorem smart_budget_term_graded_counterexample:
  "jle (Fin 1200) (Fin 2000)
   \<and> price_scoring
       \<lparr> pref_budget = Some \<lparr> budget_min = Given (Fin 1000), budget_max = Given (Fin 2000) \<rparr>,
         pref_amenities = None \<rparr>
       \<lparr> pricing_rent = Given (Fin 1200), specifications_bedrooms = Given (Fin 2),
         specifications_yearBuilt = Absent, specifications_squareFootage = Absent,
         listing_amenities = [], views = Given (Fin 0), createdAt = 0 \<rparr>
       (Fin 50) = Fin (50 + 24)
   \<and> calculateSmartScore
       \<lparr> pricing_rent = Given (Fin 1200), specifications_bedrooms = Given (Fin 2),
         specifications_yearBuilt = Absent, specifications_squareFootage = Absent,
         listing_amenities = [], views = Given (Fin 0), createdAt = 0 \<rparr>
       \<lparr> pref_budget = Some \<lparr> budget_min = Given (Fin 1000), budget_max = Given (Fin 2000) \<rparr>,
         pref_amenities = None \<rparr>
       \<lparr> avgRent = (\<lambda>k. None) \<rparr> = Fin 84
   \<and> calculateSmartScore
       \<lparr> pricing_rent = Given (Fin 1500), specifications_bedrooms = Given (Fin 2),
         specifications_yearBuilt = Absent, specifications_squareFootage = Absent,
         listing_amenities = [], views = Given (Fin 0), createdAt = 0 \<rparr>
       \<lparr> pref_budget = Some \<lparr> budget_min = Given (Fin 1000), budget_max = Given (Fin 2000) \<rparr>,
         pref_amenities = None \<rparr>
       \<lparr> avgRent = (\<lambda>k. None) \<rparr> = Fin 90"
  by (simp add: score_defs)

section \<open>Properties of the ranking\<close>

lemma jsub_positive:
  assumes "a \<noteq> NaN" and "b \<noteq> NaN"
  shows "jlt (Fin 0) (jsub b a) \<longleftrightarrow> jlt a b"
  using assms by (cases a; cases b) (simp_all add: jsub_def)

lemma jle_total:
  assumes "a \<noteq> NaN" and "b \<noteq> NaN" and "\<not> jlt a b"
  shows "jle b a"
  using assms by (cases a; cases b) auto

lemma jlt_jle: "jlt a b \<Longrightarrow> jle a b"
  by (cases a; cases b) auto

lemma jle_trans: "jle a b \<Longrightarrow> jle b c \<Longrightarrow> jle a c"
  by (cases a; cases b; cases c) auto

lemma jlt_irrefl: "\<not> jlt a a"
  by (cases a) auto

lemma set_insert_sorted: "set (insert_sorted cmp x ys) = insert x (set ys)"
  by (induction ys) auto

lemma insert_sorted_ranked:
  assumes sorted: "sorted_wrt (ranked_before key Q) ys"
      and first: "\<forall>y \<in> set ys. Q x y"
      and num: "key x \<noteq> NaN" "\<forall>y \<in> set ys. key y \<noteq> NaN"
  shows "sorted_wrt (ranked_before key Q) (insert_sorted (\<lambda>a b. jsub (key b) (key a)) x ys)"
  using sorted first num(2)
proof (induction ys)
  case Nil
  then show ?case by simp
next
  case (Cons y ys)
  have ny: "key y \<noteq> NaN" using Cons.prems(3) by simp
  show ?case
  proof (cases "jlt (key x) (key y)")
    case True
    then have pos: "jlt (Fin 0) (jsub (key y) (key x))"
      using jsub_positive [OF num(1) ny] by simp
    have yx: "ranked_before key Q y x"
      using True jlt_jle [OF True] jlt_irrefl [of "key x"] by (auto simp: ranked_before_def)
    have "sorted_wrt (ranked_before key Q) (insert_sorted (\<lambda>a b. jsub (key b) (key a)) x ys)"
      using Cons by simp
    then show ?thesis
      using pos yx Cons.prems(1) by (auto simp: set_insert_sorted)
  next
    case False
    then have npos: "\<not> jlt (Fin 0) (jsub (key y) (key x))"
      using jsub_positive [OF num(1) ny] by simp
    have yx: "jle (key y) (key x)"
      using jle_total [OF num(1) ny False] .
    have "ranked_before key Q x z" if "z \<in> set (y # ys)" for z
    proof -
      have "jle (key z) (key y)"
        using that Cons.prems(1) ny by (cases "key y") (auto simp: ranked_before_def)
      then have "jle (key z) (key x)" using yx by (rule jle_trans)
      moreover have "Q x z" using that Cons.prems(2) by auto
      ultimately show ?thesis by (simp add: ranked_before_def)
    qed
    then show ?thesis
      using npos Cons.prems(1) by auto
  qed
qed

lemma set_js_sort: "set (js_sort cmp xs) = set xs"
  by (induction xs) (simp_all add: js_sort_def set_insert_sorted)

lemma js_sort_ranked:
  assumes "sorted_wrt Q xs" and "\<forall>x \<in> set xs. key x \<noteq> NaN"
  shows "sorted_wrt (ranked_before key Q) (js_sort (\<lambda>a b. jsub (key b) (key a)) xs)"
  using assms
proof (induction xs)
  case Nil
  then show ?case by (simp add: js_sort_def)
next
  case (Cons x xs)
  let ?cmp = "\<lambda>a b. jsub (key b) (key a)"
  have ih: "sorted_wrt (ranked_before key Q) (js_sort ?cmp xs)"
    using Cons by simp
  have "sorted_wrt (ranked_before key Q) (insert_sorted ?cmp x (js_sort ?cmp xs))"
    using ih Cons.prems by (intro insert_sorted_ranked) (simp_all add: set_js_sort)
  then show ?case by (simp add: js_sort_def)
qed

lemma sorted_wrt_take: "sorted_wrt R xs \<Longrightarrow> sorted_wrt R (take n xs)"
  by (metis append_take_drop_id sorted_wrt_append)

text \<open>
  The sorting step of the route, on its own: a list of scored listings that is newest
  first and holds no NaN score comes out with the scores descending and, of any two
  equal scores, the listing created later first.
\<close>

lemma sort_step_ties_newest_first:
  assumes "sorted_wrt (\<lambda>a b. createdAt (scored_listing b) \<le> createdAt (scored_listing a)) properties"
      and "\<forall>x \<in> set properties. smartScore x \<noteq> NaN"
  shows "sorted_wrt
           (\<lambda>a b. jle (smartScore b) (smartScore a)
                 \<and> (smartScore a = smartScore b \<longrightarrow>
                      createdAt (scored_listing b) \<le> createdAt (scored_listing a)))
           (take 20 (js_sort (\<lambda>a b. jsub (smartScore b) (smartScore a)) properties))"
proof -
  let ?Q = "\<lambda>a b. createdAt (scored_listing b) \<le> createdAt (scored_listing a)"
  have "sorted_wrt (ranked_before smartScore ?Q)
          (take 20 (js_sort (\<lambda>a b. jsub (smartScore b) (smartScore a)) properties))"
    using assms by (intro sorted_wrt_take js_sort_ranked)
  then show ?thesis
    by (rule sorted_wrt_mono_rel [rotated]) (auto simp: ranked_before_def)
qed

text \<open>The route never reaches that step with a listing: scoring the first one raises.\<close>

lemma map_throwing_score_property:
  "map_throwing (score_property prefs) found = (if found = [] then Inr [] else Inl TypeError)"
  by (cases found) (simp_all add: score_property_def marketDataService_getMarketData_def)

lemma smart_recommendations_nonempty:
  assumes "found \<noteq> []"
  shows "smart_recommendations req (Inr found) = Status_500"
  using assms
  by (simp add: smart_recommendations_def map_throwing_score_property
           split: option.splits prod.splits)

lemma smart_recommendations_ranks_nothing:
  assumes "smart_recommendations req store = Json_recommendations recommendations totalFound"
  shows "recommendations = [] \<and> totalFound = 0"
  using assms
  by (auto simp: smart_recommendations_def map_throwing_score_property js_sort_def
           split: option.splits prod.splits sum.splits if_splits)


section \<open>Properties of the market data service\<close>

lemma price_trends_entries_unflagged:
  "list_all (\<lambda>entry. get_prop entry ''isEstimate'' = JUndefined)
     (price_trends_loop month_before random n k)"
  by (induction n arbitrary: k) (simp_all add: Let_def)

text \<open>
  Claim C9, as amended. The service's \<open>getMarketData\<close> returns \<open>isEstimate: true\<close>
  exactly when it answers with the global placeholder data: no location, no city, a
  failed query or no listing found; the aggregate computed from stored listings has
  no such member. The mock price trends of \<open>getPriceTrends\<close> and the randomised figures
  of the route's own \<open>getMarketData\<close> never carry the flag.
\<close>

theorem isEstimate_marks_the_global_fallback_only:
  "get_prop (service_getMarketData Property_find now loc) ''isEstimate''
     = (if insufficient_data Property_find loc then JBool True else JUndefined)
   \<and> (insufficient_data Property_find loc
        = (service_getMarketData Property_find now loc = getGlobalMarketData now))
   \<and> get_prop (getPriceTrends month_before random loc' months) ''isEstimate'' = JUndefined
   \<and> list_all (\<lambda>entry. get_prop entry ''isEstimate'' = JUndefined)
        (price_trends_loop month_before random n k)
   \<and> get_prop (getMarketData random' clock property) ''isEstimate'' = JUndefined"
proof -
  have 1: "get_prop (service_getMarketData Property_find now loc) ''isEstimate''
     = (if insufficient_data Property_find loc then JBool True else JUndefined)"
    by (simp add: service_getMarketData_def insufficient_data_def getGlobalMarketData_def Let_def
             split: option.splits sum.splits)
  have 2: "insufficient_data Property_find loc
        = (service_getMarketData Property_find now loc = getGlobalMarketData now)"
    by (simp add: service_getMarketData_def insufficient_data_def getGlobalMarketData_def Let_def
             split: option.splits sum.splits)
  have 3: "get_prop (getPriceTrends month_before random loc' months) ''isEstimate'' = JUndefined"
    by (simp add: getPriceTrends_def)
  have 4: "get_prop (getMarketData random' clock property) ''isEstimate'' = JUndefined"
    by (simp add: getMarketData_def Let_def)
  from 1 2 3 4 price_trends_entries_unflagged show ?thesis
    by (intro conjI)
qed

text \<open>
  Claim C9 as stated fails: the price trends are mock data drawn from \<open>Math.random()\<close>,
  and neither the array nor an entry of it is flagged \<open>isEstimate\<close>.
\<close>

theorem unflagged_mock_trends_counterexample:
  "getPriceTrends (\<lambda>i. ''2026-01-15'') (\<lambda>k. 1 / 4) None (Some 2)
     = JArr [JObj [(''date'', JStr ''2026-01-15''), (''averageRent'', JNum (Fin 1070))],
             JObj [(''date'', JStr ''2026-01-15''), (''averageRent'', JNum (Fin 1050))]]
   \<and> get_prop (getPriceTrends (\<lambda>i. ''2026-01-15'') (\<lambda>k. 1 / 4) None (Some 2)) ''isEstimate''
       \<noteq> JBool True
   \<and> get_prop (JObj [(''date'', JStr ''2026-01-15''), (''averageRent'', JNum (Fin 1070))])
        ''isEstimate'' \<noteq> JBool True"
  by (simp add: getPriceTrends_def numeral_2_eq_2 Let_def)

text \<open>The route's market data for a listing, drawn around its rent, without a flag.\<close>

lemma unflagged_route_market_data:
  "getMarketData (\<lambda>k. 1 / 2) ''2026-01-15T00:00:00.000Z''
     \<lparr> pricing_rent = Given (Fin 1500), specifications_bedrooms = Given (Fin 2),
       specifications_yearBuilt = Absent, specifications_squareFootage = Given (Fin 1000),
       listing_amenities = [], views = Given (Fin 0), createdAt = 10 \<rparr>
   = JObj [(''averageRent'', JNum (Fin 1500)), (''averagePricePerSqFt'', JNum (Fin 1.5)),
           (''marketHealth'', JStr ''stable''),
           (''lastUpdated'', JStr ''2026-01-15T00:00:00.000Z'')]"
  by (simp add: getMarketData_def marketHealth_at_def Let_def)

end
